theory Spec2Isabelle
  imports Complex_Main "HOL-Library.Sublist"
begin

section \<open>Python values, exceptions and strings\<close>

text \<open>
  The program is one Streamlit script, \<^verbatim>\<open>deep_research_openai.py\<close>. The values it handles
  are strings, the parsed JSON bodies of two web services and the dictionaries it builds
  from them. A parsed JSON value is a \<open>json\<close>; a Python \<open>dict\<close> is an association list
  with the keys in insertion order. Strings are lists of characters, a character being a
  code point below 256; the literals of the script are ASCII.
\<close>

datatype json =
    JNull
  | JBool bool
  | JInt int
  | JFloat real
  | JStr string
  | JList "json list"
  | JObj "(string \<times> json) list"

text \<open>
  Exceptions are values: the class of the exception and the text that \<open>str(e)\<close> gives.
  \<open>OtherError\<close> is any other class derived from \<open>Exception\<close>, by its name.
  \<open>KeyboardInterrupt\<close>, \<open>SystemExit\<close> and \<open>OtherBaseException\<close> (any other class that
  derives from \<open>BaseException\<close> and not from \<open>Exception\<close>, by its name: asyncio's
  \<open>CancelledError\<close>, the exceptions by which Streamlit stops or reruns a script) are not
  instances of \<open>Exception\<close>: an \<open>except Exception\<close> clause does not catch them.
\<close>

datatype exc_class =
    Exception | KeyError | IndexError | TypeError | AttributeError | ValueError
  | OtherError string
  | KeyboardInterrupt | SystemExit | OtherBaseException string

datatype py_error = PyError exc_class string

fun exc_str :: "py_error \<Rightarrow> string" where
  "exc_str (PyError c msg) = msg"

text \<open>\<open>isinstance(e, Exception)\<close>, the test of an \<open>except Exception\<close> clause.\<close>

fun isinstance_Exception :: "py_error \<Rightarrow> bool" where
  "isinstance_Exception (PyError KeyboardInterrupt msg) = False"
| "isinstance_Exception (PyError SystemExit msg) = False"
| "isinstance_Exception (PyError (OtherBaseException name) msg) = False"
| "isinstance_Exception (PyError c msg) = True"

definition quoted :: "string \<Rightarrow> string" where
  "quoted s = [CHR 0x27] @ s @ [CHR 0x27]"

fun type_name :: "json \<Rightarrow> string" where
  "type_name JNull = ''NoneType''"
| "type_name (JBool b) = ''bool''"
| "type_name (JInt i) = ''int''"
| "type_name (JFloat x) = ''float''"
| "type_name (JStr s) = ''str''"
| "type_name (JList xs) = ''list''"
| "type_name (JObj kvs) = ''dict''"

text \<open>Python's truth value of an object, as \<open>if x\<close>, \<open>not x\<close> and \<open>x and y\<close> test it.\<close>

fun truthy :: "json \<Rightarrow> bool" where
  "truthy JNull = False"
| "truthy (JBool b) = b"
| "truthy (JInt i) = (i \<noteq> 0)"
| "truthy (JFloat x) = (x \<noteq> 0)"
| "truthy (JStr s) = (s \<noteq> [])"
| "truthy (JList xs) = (xs \<noteq> [])"
| "truthy (JObj kvs) = (kvs \<noteq> [])"

text \<open>\<open>v[key]\<close> with a string key: only a dict has such an item.\<close>

fun subscript :: "json \<Rightarrow> string \<Rightarrow> py_error + json" where
  "subscript (JObj kvs) key =
     (case map_of kvs key of
        Some v \<Rightarrow> Inr v
      | None \<Rightarrow> Inl (PyError KeyError (quoted key)))"
| "subscript (JStr s) key =
     Inl (PyError TypeError (''string indices must be integers, not '' @ quoted ''str''))"
| "subscript (JList xs) key =
     Inl (PyError TypeError ''list indices must be integers or slices, not str'')"
| "subscript v key =
     Inl (PyError TypeError (quoted (type_name v) @ '' object is not subscriptable''))"

text \<open>\<open>len(v)\<close>.\<close>

fun py_len :: "json \<Rightarrow> py_error + int" where
  "py_len (JStr s) = Inr (int (length s))"
| "py_len (JList xs) = Inr (int (length xs))"
| "py_len (JObj kvs) = Inr (int (length kvs))"
| "py_len v =
     Inl (PyError TypeError (''object of type '' @ quoted (type_name v) @ '' has no len()''))"

text \<open>\<open>str(n)\<close> for an integer: its decimal digits, with a sign when negative.\<close>

definition digit_char :: "nat \<Rightarrow> char" where
  "digit_char d = char_of (48 + d)"

fun str_nat :: "nat \<Rightarrow> string" where
  "str_nat n = (if n < 10 then [digit_char n] else str_nat (n div 10) @ [digit_char (n mod 10)])"

declare str_nat.simps [simp del]

definition str_int :: "int \<Rightarrow> string" where
  "str_int i = (if i < 0 then CHR ''-'' # str_nat (nat (- i)) else str_nat (nat i))"

text \<open>
  \<open>s.strip()\<close>: the string without its leading and trailing whitespace, the characters
  of which \<open>str.isspace\<close> holds. By code point these are U+0009 to U+000D, U+001C to
  U+0020, U+0085, U+00A0, U+1680, U+2000 to U+200A, U+2028, U+2029, U+202F, U+205F and
  U+3000. A character of a \<open>string\<close> is a code point below 256.
\<close>

definition py_isspace :: "nat \<Rightarrow> bool" where
  "py_isspace n =
     ((9 \<le> n \<and> n \<le> 13) \<or> (28 \<le> n \<and> n \<le> 32) \<or> n = 133 \<or> n = 160 \<or> n = 5760
      \<or> (8192 \<le> n \<and> n \<le> 8202) \<or> n = 8232 \<or> n = 8233 \<or> n = 8239 \<or> n = 8287
      \<or> n = 12288)"

definition is_space :: "char \<Rightarrow> bool" where
  "is_space c = py_isspace (of_char c)"

definition strip :: "string \<Rightarrow> string" where
  "strip s = rev (dropWhile is_space (rev (dropWhile is_space s)))"

text \<open>\<open>s.replace(' ', '_')\<close>, the only use of \<open>replace\<close> in the script.\<close>

definition replace_space :: "string \<Rightarrow> string" where
  "replace_space s = map (\<lambda>c. if c = CHR '' '' then CHR ''_'' else c) s"

definition nl :: string where
  "nl = [CHR 0x0A]"

section \<open>The session, the services and the page\<close>

text \<open>
  \<open>st.session_state\<close> holds three strings. Between two runs of the script Streamlit
  keeps what was stored (\<open>stored_state\<close>: a key is absent until the script sets it);
  lines 15 to 20 give every absent key the empty string, so the rest of the script reads
  a \<open>session_state\<close>.
\<close>

record stored_state =
  stored_llama_api_key :: "string option"
  stored_llama_endpoint :: "string option"
  stored_firecrawl_api_key :: "string option"

record session_state =
  llama_api_key :: string
  llama_endpoint :: string
  firecrawl_api_key :: string

record http_request =
  url :: string
  headers :: "(string \<times> string) list"
  json_payload :: json

text \<open>
  A response of \<open>requests.post\<close>: \<open>resp_text\<close> is \<open>response.text\<close> and \<open>resp_json\<close> is
  what \<open>response.json()\<close> does, which raises on a body that is not JSON.
\<close>

record http_response =
  status_code :: int
  resp_text :: string
  resp_json :: "py_error + json"

text \<open>What the script does to the outside, in order: the page and the two services.\<close>

datatype event =
    StSpinner string
  | StError string
  | StWarning string
  | StMarkdown json
  | StExpander string
  | StDownloadButton string json string string
  | NewFirecrawlApp string
  | FirecrawlDeepResearch string "(string \<times> int) list"
  | RequestsPost http_request

record world =
  session :: session_state
  trace :: "event list"

text \<open>
  The code outside the repository is a parameter: \<open>requests.post\<close> (its answer may depend
  on how many posts came before), the constructor of \<open>FirecrawlApp\<close> (\<open>None\<close> when it
  returns), the client's \<open>deep_research\<close> for an API key, a query and the limits, and
  Python's \<open>repr\<close>, which an f-string applies to a value that is not a string. Each of
  the three calls may raise any exception, an instance of \<open>Exception\<close> or not. The
  \<open>on_activity\<close> callback only writes progress lines to the page while the client runs;
  it is part of the client's call, and what it raises comes out of that call. The other
  calls that draw on the page (\<open>st.spinner\<close>, \<open>st.error\<close>, \<open>st.markdown\<close> and the like)
  return.
\<close>

record env =
  requests_post :: "nat \<Rightarrow> http_request \<Rightarrow> py_error + http_response"
  new_firecrawl_app :: "string \<Rightarrow> py_error option"
  firecrawl_deep_research :: "string \<Rightarrow> string \<Rightarrow> (string \<times> int) list \<Rightarrow> py_error + json"
  py_repr :: "json \<Rightarrow> string"

definition emit :: "event \<Rightarrow> world \<Rightarrow> world" where
  "emit e w = w\<lparr>trace := trace w @ [e]\<rparr>"

fun is_post :: "event \<Rightarrow> bool" where
  "is_post (RequestsPost r) = True"
| "is_post e = False"


fun is_warning :: "event \<Rightarrow> bool" where
  "is_warning (StWarning m) = True"
| "is_warning e = False"

fun is_network :: "event \<Rightarrow> bool" where
  "is_network (RequestsPost r) = True"
| "is_network (FirecrawlDeepResearch q ps) = True"
| "is_network e = False"

definition posts_made :: "world \<Rightarrow> nat" where
  "posts_made w = length (filter is_post (trace w))"

text \<open>\<open>{x}\<close> in an f-string: \<open>str(x)\<close>, the string itself or the \<open>repr\<close> of another value.\<close>

definition format_value :: "env \<Rightarrow> json \<Rightarrow> string" where
  "format_value env v = (case v of JStr s \<Rightarrow> s | _ \<Rightarrow> py_repr env v)"

section \<open>call_llama\<close>

definition llama_headers :: "session_state \<Rightarrow> (string \<times> string) list" where
  "llama_headers s =
     (let headers = [(''Content-Type'', ''application/json'')] in
      if llama_api_key s \<noteq> []
      then headers @ [(''Authorization'', ''Bearer '' @ llama_api_key s)]
      else headers)"

definition llama_payload :: "string \<Rightarrow> json" where
  "llama_payload prompt =
     JObj [(''inputs'', JStr prompt),
           (''parameters'', JObj [(''max_new_tokens'', JInt 1024), (''temperature'', JFloat 0.7)])]"

definition llama_request :: "session_state \<Rightarrow> string \<Rightarrow> http_request" where
  "llama_request s prompt =
     \<lparr>url = llama_endpoint s, headers = llama_headers s, json_payload = llama_payload prompt\<rparr>"

text \<open>
  Line 79,
  \<^verbatim>\<open>result[0]["generated_text"] if isinstance(result, list) else result.get("generated_text", "").strip()\<close>:
  the conditional expression binds weaker than the call of \<open>strip\<close>, so only the
  \<open>else\<close> branch is stripped.
\<close>

fun generated_text :: "json \<Rightarrow> py_error + json" where
  "generated_text (JList []) = Inl (PyError IndexError ''list index out of range'')"
| "generated_text (JList (x # xs)) = subscript x ''generated_text''"
| "generated_text (JObj kvs) =
     (case (case map_of kvs ''generated_text'' of Some v \<Rightarrow> v | None \<Rightarrow> JStr '''') of
        JStr s \<Rightarrow> Inr (JStr (strip s))
      | v \<Rightarrow> Inl (PyError AttributeError
                 (quoted (type_name v) @ '' object has no attribute '' @ quoted ''strip'')))"
| "generated_text v =
     Inl (PyError AttributeError
            (quoted (type_name v) @ '' object has no attribute '' @ quoted ''get''))"

definition call_llama :: "env \<Rightarrow> string \<Rightarrow> world \<Rightarrow> (py_error + json) \<times> world" where
  "call_llama env prompt w =
     (let req = llama_request (session w) prompt;
          w1 = emit (RequestsPost req) w
      in (case requests_post env (posts_made w) req of
            Inl e \<Rightarrow> (Inl e, w1)
          | Inr response \<Rightarrow>
              (if status_code response = 200 then
                 (case resp_json response of
                    Inl e \<Rightarrow> (Inl e, w1)
                  | Inr result \<Rightarrow> (generated_text result, w1))
               else
                 (Inl (PyError Exception
                        (''LLaMA API error: '' @ str_int (status_code response) @ '' - ''
                          @ resp_text response)), w1))))"

section \<open>deep_research\<close>

text \<open>An exception ends the evaluation of an expression: the rest is not evaluated.\<close>

fun and_then :: "py_error + 'a \<Rightarrow> ('a \<Rightarrow> py_error + 'b) \<Rightarrow> py_error + 'b" where
  "and_then (Inl e) f = Inl e"
| "and_then (Inr x) f = f x"

definition crawl_params :: "int \<Rightarrow> int \<Rightarrow> int \<Rightarrow> (string \<times> int) list" where
  "crawl_params max_depth time_limit max_urls =
     [(''maxDepth'', max_depth), (''timeLimit'', time_limit), (''maxUrls'', max_urls)]"

text \<open>
  The dictionary of lines 106 to 111, its values evaluated in the order they are written:
  \<open>results['data']['finalAnalysis']\<close>, \<open>len(results['data']['sources'])\<close>,
  \<open>results['data']['sources']\<close>.
\<close>

definition research_record :: "json \<Rightarrow> py_error + json" where
  "research_record results =
     and_then (and_then (subscript results ''data'') (\<lambda>d. subscript d ''finalAnalysis''))
       (\<lambda>final_analysis.
     and_then (and_then (and_then (subscript results ''data'') (\<lambda>d. subscript d ''sources'')) py_len)
       (\<lambda>sources_count.
     and_then (and_then (subscript results ''data'') (\<lambda>d. subscript d ''sources''))
       (\<lambda>sources.
     Inr (JObj [(''success'', JBool True),
                (''final_analysis'', final_analysis),
                (''sources_count'', JInt sources_count),
                (''sources'', sources)]))))"

text \<open>The body of the \<open>try\<close>, lines 89 to 111.\<close>

definition deep_research_try ::
  "env \<Rightarrow> string \<Rightarrow> int \<Rightarrow> int \<Rightarrow> int \<Rightarrow> world \<Rightarrow> (py_error + json) \<times> world" where
  "deep_research_try env query max_depth time_limit max_urls w =
     (let api_key = firecrawl_api_key (session w);
          w1 = emit (NewFirecrawlApp api_key) w
      in case new_firecrawl_app env api_key of
           Some e \<Rightarrow> (Inl e, w1)
         | None \<Rightarrow>
             (let params = crawl_params max_depth time_limit max_urls;
                  w2 = emit (StSpinner ''Performing deep research...'') w1;
                  w3 = emit (FirecrawlDeepResearch query params) w2
              in (case firecrawl_deep_research env api_key query params of
                    Inl e \<Rightarrow> (Inl e, w3)
                  | Inr results \<Rightarrow> (research_record results, w3))))"

definition failure_record :: "py_error \<Rightarrow> json" where
  "failure_record e = JObj [(''error'', JStr (exc_str e)), (''success'', JBool False)]"

text \<open>
  Lines 88 to 114: the handler is \<open>except Exception as e\<close>, so an exception that is not
  an instance of \<open>Exception\<close> leaves \<open>deep_research\<close>.
\<close>

definition deep_research ::
  "env \<Rightarrow> string \<Rightarrow> int \<Rightarrow> int \<Rightarrow> int \<Rightarrow> world \<Rightarrow> (py_error + json) \<times> world" where
  "deep_research env query max_depth time_limit max_urls w =
     (case deep_research_try env query max_depth time_limit max_urls w of
        (Inr r, w1) \<Rightarrow> (Inr r, w1)
      | (Inl e, w1) \<Rightarrow>
          (if isinstance_Exception e
           then (Inr (failure_record e), emit (StError (''Deep research error: '' @ exc_str e)) w1)
           else (Inl e, w1)))"

section \<open>run_research_process\<close>

definition initial_prompt :: "env \<Rightarrow> string \<Rightarrow> json \<Rightarrow> json \<Rightarrow> string" where
  "initial_prompt env topic final_analysis sources =
     nl @ ''You are a research assistant. Based on the analysis and sources below, generate a clear, structured research report.'' @ nl
     @ nl
     @ ''Topic: '' @ topic @ nl
     @ nl
     @ ''Analysis:'' @ nl
     @ format_value env final_analysis @ nl
     @ nl
     @ ''Sources:'' @ nl
     @ format_value env sources @ nl
     @ nl
     @ ''Write a concise research report with citations and key insights.'' @ nl"

definition enhancement_prompt :: "env \<Rightarrow> json \<Rightarrow> string" where
  "enhancement_prompt env initial_report =
     nl @ ''Enhance the following research report by:'' @ nl
     @ ''- Adding more detail to complex parts'' @ nl
     @ ''- Including examples, case studies, and applications'' @ nl
     @ ''- Describing visual elements like diagrams'' @ nl
     @ ''- Making the report comprehensive but factual'' @ nl
     @ nl
     @ ''Original Report:'' @ nl
     @ format_value env initial_report @ nl"

definition run_research_process ::
  "env \<Rightarrow> string \<Rightarrow> world \<Rightarrow> (py_error + json) \<times> world" where
  "run_research_process env topic w =
     (case deep_research env topic 3 180 10 (emit (StSpinner ''Conducting deep web research...'') w) of
        (Inl e, w1) \<Rightarrow> (Inl e, w1)
      | (Inr research_result, w1) \<Rightarrow>
          (case subscript research_result ''success'' of
             Inl e \<Rightarrow> (Inl e, w1)
           | Inr ok \<Rightarrow>
               if \<not> truthy ok then (Inr (JStr ''Research failed. Please try again.''), w1)
               else
                 (case subscript research_result ''final_analysis'' of
                    Inl e \<Rightarrow> (Inl e, w1)
                  | Inr final_analysis \<Rightarrow>
                      (case subscript research_result ''sources'' of
                         Inl e \<Rightarrow> (Inl e, w1)
                       | Inr sources \<Rightarrow>
                           (case call_llama env (initial_prompt env topic final_analysis sources) w1 of
                              (Inl e, w2) \<Rightarrow> (Inl e, w2)
                            | (Inr initial_report, w2) \<Rightarrow>
                                (let w3 = emit (StMarkdown initial_report)
                                            (emit (StExpander ''View Initial Research Report'') w2);
                                     w4 = emit (StSpinner ''Enhancing the report with additional information...'') w3
                                 in call_llama env (enhancement_prompt env initial_report) w4))))))"

section \<open>The page: credentials, the button and its action\<close>

text \<open>Lines 15 to 20: a key that is not in the session state yet is set to the empty string.\<close>

definition init_session_state :: "stored_state \<Rightarrow> session_state" where
  "init_session_state st =
     \<lparr>llama_api_key = (case stored_llama_api_key st of None \<Rightarrow> [] | Some v \<Rightarrow> v),
      llama_endpoint = (case stored_llama_endpoint st of None \<Rightarrow> [] | Some v \<Rightarrow> v),
      firecrawl_api_key = (case stored_firecrawl_api_key st of None \<Rightarrow> [] | Some v \<Rightarrow> v)\<rparr>"

definition persist :: "session_state \<Rightarrow> stored_state" where
  "persist s =
     \<lparr>stored_llama_api_key = Some (llama_api_key s),
      stored_llama_endpoint = Some (llama_endpoint s),
      stored_firecrawl_api_key = Some (firecrawl_api_key s)\<rparr>"

text \<open>What the user's browser sends for one run of the script: the four text inputs and the click.\<close>

record ui_input =
  in_llama_endpoint :: string
  in_llama_api_key :: string
  in_firecrawl_api_key :: string
  in_research_topic :: string
  in_clicked :: bool

text \<open>Lines 41 to 46: the three \<open>if\<close> statements of the sidebar, in their order.\<close>

definition sidebar :: "string \<Rightarrow> string \<Rightarrow> string \<Rightarrow> session_state \<Rightarrow> session_state" where
  "sidebar llama_endpoint_in llama_api_key_in firecrawl_api_key_in s =
     (let s1 = (if llama_endpoint_in \<noteq> [] then s\<lparr>llama_endpoint := llama_endpoint_in\<rparr> else s);
          s2 = (if llama_api_key_in \<noteq> [] then s1\<lparr>llama_api_key := llama_api_key_in\<rparr> else s1);
          s3 = (if firecrawl_api_key_in \<noteq> [] then s2\<lparr>firecrawl_api_key := firecrawl_api_key_in\<rparr> else s2)
      in s3)"

text \<open>
  Line 163, the \<open>disabled\<close> argument:
  \<^verbatim>\<open>not (research_topic and st.session_state.llama_endpoint and st.session_state.firecrawl_api_key)\<close>.
\<close>

definition button_disabled :: "string \<Rightarrow> session_state \<Rightarrow> bool" where
  "button_disabled research_topic s =
     (\<not> (research_topic \<noteq> [] \<and> llama_endpoint s \<noteq> [] \<and> firecrawl_api_key s \<noteq> []))"

text \<open>\<open>st.button\<close> returns true in the run that follows a click; a disabled button takes no click.\<close>

definition st_button :: "bool \<Rightarrow> bool \<Rightarrow> bool" where
  "st_button clicked disabled = (clicked \<and> \<not> disabled)"

text \<open>
  Lines 164 to 185, the body of \<open>if st.button(...)\<close>. Its handler is \<open>except Exception\<close>
  too: the result is \<open>None\<close> when the body completes and the exception that leaves it
  otherwise.
\<close>

definition start_research :: "env \<Rightarrow> string \<Rightarrow> world \<Rightarrow> py_error option \<times> world" where
  "start_research env research_topic w =
     (if research_topic = [] then (None, emit (StWarning ''Please enter a research topic.'') w)
      else if firecrawl_api_key (session w) = []
        then (None, emit (StWarning ''Please enter the Firecrawl API key.'') w)
      else if llama_endpoint (session w) = []
        then (None, emit (StWarning ''Please enter the LLaMA API endpoint.'') w)
      else
        (case run_research_process env research_topic w of
           (Inl e, w1) \<Rightarrow>
             (if isinstance_Exception e
              then (None, emit (StError (''An error occurred: '' @ exc_str e)) w1)
              else (Some e, w1))
         | (Inr enhanced_report, w1) \<Rightarrow>
             (None,
              emit (StDownloadButton ''Download Report'' enhanced_report
                     (replace_space research_topic @ ''_report.md'') ''text/markdown'')
                (emit (StMarkdown enhanced_report)
                  (emit (StMarkdown (JStr ''## Enhanced Research Report'')) w1)))))"

text \<open>
  One run of the script, from the stored session state and the trace so far: the
  exception that ends the run, if one does, and the world it leaves.
\<close>

definition script_run ::
  "env \<Rightarrow> ui_input \<Rightarrow> stored_state \<Rightarrow> event list \<Rightarrow> py_error option \<times> world" where
  "script_run env inp st tr =
     (let s = sidebar (in_llama_endpoint inp) (in_llama_api_key inp) (in_firecrawl_api_key inp)
                (init_session_state st);
          research_topic = in_research_topic inp;
          w = \<lparr>session = s, trace = tr\<rparr>
      in if st_button (in_clicked inp) (button_disabled research_topic s)
         then start_research env research_topic w
         else (None, w))"

text \<open>
  A session: the runs of the script that the user's interactions cause, one after
  another. The session state outlives a run that an exception ends.
\<close>

fun run_session :: "env \<Rightarrow> ui_input list \<Rightarrow> stored_state \<Rightarrow> event list \<Rightarrow> stored_state \<times> event list" where
  "run_session env [] st tr = (st, tr)"
| "run_session env (inp # inps) st tr =
     (let w = snd (script_run env inp st tr)
      in run_session env inps (persist (session w)) (trace w))"

section \<open>Concrete services\<close>

text \<open>
  A session with an endpoint and a crawl key, and services that give fixed answers: the
  examples below run the script against them.
\<close>

definition world0 :: world where
  "world0 = \<lparr>session = \<lparr>llama_api_key = '''', llama_endpoint = ''http://llama.example/v1'', firecrawl_api_key = ''fc-key''\<rparr>, trace = []\<rparr>"

definition ok_response :: "json \<Rightarrow> http_response" where
  "ok_response body = \<lparr>status_code = 200, resp_text = ''ok'', resp_json = Inr body\<rparr>"

definition response_500 :: http_response where
  "response_500 = \<lparr>status_code = 500, resp_text = ''Internal Server Error'', resp_json = Inl (PyError ValueError ''Expecting value'')\<rparr>"

definition crawl_ok :: json where
  "crawl_ok = JObj [(''data'', JObj [(''finalAnalysis'', JStr ''X''), (''sources'', JList [])])]"

definition demo_env :: "(nat \<Rightarrow> py_error + http_response) \<Rightarrow> (py_error + json) \<Rightarrow> env" where
  "demo_env post crawl =
     \<lparr>requests_post = (\<lambda>n req. post n),
      new_firecrawl_app = (\<lambda>k. None),
      firecrawl_deep_research = (\<lambda>k q ps. crawl),
      py_repr = (\<lambda>v. ''[]'')\<rparr>"

definition two_posts :: "nat \<Rightarrow> py_error + http_response" where
  "two_posts n =
     (if n = 0 then Inr (ok_response (JList [JObj [(''generated_text'', JStr ''draft'')]]))
      else Inr (ok_response (JObj [(''generated_text'', JStr '' final '')])))"

definition cleared_input :: ui_input where
  "cleared_input = \<lparr>in_llama_endpoint = '''', in_llama_api_key = '''', in_firecrawl_api_key = '''',
                     in_research_topic = '''', in_clicked = True\<rparr>"

definition stored0 :: stored_state where
  "stored0 = \<lparr>stored_llama_api_key = Some ''hf-key'',
               stored_llama_endpoint = Some ''http://llama.example/v1'',
               stored_firecrawl_api_key = Some ''fc-key''\<rparr>"

section \<open>The trace and the session along a run\<close>

lemma trace_emit [simp]: "trace (emit e w) = trace w @ [e]"
  by (simp add: emit_def)

lemma session_emit [simp]: "session (emit e w) = session w"
  by (simp add: emit_def)

lemma posts_made_emit [simp]: "posts_made (emit e w) = (if is_post e then Suc (posts_made w) else posts_made w)"
  by (simp add: posts_made_def)

lemma snd_call_llama [simp]:
  "snd (call_llama env prompt w) = emit (RequestsPost (llama_request (session w) prompt)) w"
  by (simp add: call_llama_def Let_def split: sum.splits)

lemma fst_call_llama_cong:
  "session w' = session w \<Longrightarrow> posts_made w' = posts_made w \<Longrightarrow>
   fst (call_llama env prompt w') = fst (call_llama env prompt w)"
  by (simp add: call_llama_def Let_def split: sum.splits)

lemma session_deep_research_try [simp]:
  "session (snd (deep_research_try env q d t u w)) = session w"
  by (simp add: deep_research_try_def Let_def split: option.splits sum.splits)

lemma deep_research_eq:
  "deep_research env q d t u w =
     (case fst (deep_research_try env q d t u w) of
        Inr r \<Rightarrow> (Inr r, snd (deep_research_try env q d t u w))
      | Inl e \<Rightarrow>
          (if isinstance_Exception e
           then (Inr (failure_record e),
                 emit (StError (''Deep research error: '' @ exc_str e))
                   (snd (deep_research_try env q d t u w)))
           else (Inl e, snd (deep_research_try env q d t u w))))"
  by (cases "deep_research_try env q d t u w") (simp add: deep_research_def split: sum.splits)

lemma session_deep_research [simp]:
  "session (snd (deep_research env q d t u w)) = session w"
  by (simp add: deep_research_eq split: sum.splits)

lemma fst_deep_research_try_cong:
  "session w' = session w \<Longrightarrow>
   fst (deep_research_try env q d t u w') = fst (deep_research_try env q d t u w)"
  by (simp add: deep_research_try_def Let_def split: option.splits sum.splits)

lemma fst_deep_research_cong:
  assumes "session w' = session w"
  shows "fst (deep_research env q d t u w') = fst (deep_research env q d t u w)"
proof -
  have "fst (deep_research env q d t u v) =
          (case fst (deep_research_try env q d t u v) of
             Inl e \<Rightarrow> if isinstance_Exception e then Inr (failure_record e) else Inl e
           | Inr r \<Rightarrow> Inr r)" for v
    by (simp add: deep_research_eq split: sum.splits)
  with fst_deep_research_try_cong [OF assms] show ?thesis by simp
qed

lemma trace_deep_research_try:
  "trace (snd (deep_research_try env q d t u w)) =
     trace w @ NewFirecrawlApp (firecrawl_api_key (session w)) #
       (if new_firecrawl_app env (firecrawl_api_key (session w)) = None
        then [StSpinner ''Performing deep research...'', FirecrawlDeepResearch q (crawl_params d t u)]
        else [])"
  by (simp add: deep_research_try_def Let_def split: option.splits sum.splits)

lemma trace_deep_research:
  "trace (snd (deep_research env q d t u w)) =
     trace w @ NewFirecrawlApp (firecrawl_api_key (session w)) #
       (if new_firecrawl_app env (firecrawl_api_key (session w)) = None
        then [StSpinner ''Performing deep research...'', FirecrawlDeepResearch q (crawl_params d t u)]
        else []) @
       (case fst (deep_research_try env q d t u w) of
          Inl e \<Rightarrow> if isinstance_Exception e
                   then [StError (''Deep research error: '' @ exc_str e)] else []
        | Inr r \<Rightarrow> [])"
  by (simp add: deep_research_eq trace_deep_research_try split: sum.splits)

section \<open>Properties of call_llama\<close>

lemma str_int_500: "str_int 500 = ''500''"
  by code_simp

text \<open>
  C1. When \<open>requests.post\<close> returns a response whose status is not 200 (every
  non-success status is such a status), \<open>call_llama\<close> raises an \<open>Exception\<close> whose
  message contains the decimal status code, and it returns no value.
\<close>

theorem call_llama_non_200_raises:
  assumes "requests_post env (posts_made w) (llama_request (session w) prompt) = Inr response"
      and "status_code response \<noteq> 200"
  shows "fst (call_llama env prompt w) =
           Inl (PyError Exception
                  (''LLaMA API error: '' @ str_int (status_code response) @ '' - '' @ resp_text response))
         \<and> sublist (str_int (status_code response))
             (''LLaMA API error: '' @ str_int (status_code response) @ '' - '' @ resp_text response)
         \<and> (\<forall>v. fst (call_llama env prompt w) \<noteq> Inr v)"
proof -
  have r: "fst (call_llama env prompt w) =
           Inl (PyError Exception
                  (''LLaMA API error: '' @ str_int (status_code response) @ '' - '' @ resp_text response))"
    using assms by (simp add: call_llama_def Let_def)
  have s: "sublist (str_int (status_code response))
             (''LLaMA API error: '' @ str_int (status_code response) @ '' - '' @ resp_text response)"
    unfolding sublist_def by blast
  from r s show ?thesis by simp
qed

theorem call_llama_non_200_raises_witness:
  "fst (call_llama (demo_env (\<lambda>n. Inr response_500) (Inr crawl_ok)) ''hello'' world0) =
     Inl (PyError Exception ''LLaMA API error: 500 - Internal Server Error'')
   \<and> sublist ''500'' ''LLaMA API error: 500 - Internal Server Error''"
proof -
  let ?env = "demo_env (\<lambda>n. Inr response_500) (Inr crawl_ok)"
  have h1: "requests_post ?env (posts_made world0) (llama_request (session world0) ''hello'')
              = Inr response_500"
    by (simp add: demo_env_def)
  have h2: "status_code response_500 \<noteq> 200"
    by (simp add: response_500_def)
  from call_llama_non_200_raises [OF h1 h2] show ?thesis
    by (simp add: response_500_def str_int_500)
qed






text \<open>
  C8, as the code has it. For a response with status 200 whose JSON body is an object
  with no \<open>generated_text\<close> field, \<open>call_llama\<close> returns the empty string and raises
  nothing.
\<close>

theorem call_llama_missing_field:
  assumes "requests_post env (posts_made w) (llama_request (session w) prompt) = Inr response"
      and "status_code response = 200"
      and "resp_json response = Inr (JObj kvs)"
      and "map_of kvs ''generated_text'' = None"
  shows "fst (call_llama env prompt w) = Inr (JStr '''')"
  using assms by (simp add: call_llama_def Let_def strip_def)

theorem call_llama_missing_field_witness:
  "fst (call_llama (demo_env (\<lambda>n. Inr (ok_response (JObj [(''error'', JStr ''Model is loading'')]))) (Inr crawl_ok))
        ''hi'' world0) = Inr (JStr '''')"
proof -
  let ?o = "JObj [(''error'', JStr ''Model is loading'')]"
  let ?e = "demo_env (\<lambda>n. Inr (ok_response ?o)) (Inr crawl_ok)"
  have h1: "requests_post ?e (posts_made world0) (llama_request (session world0) ''hi'') = Inr (ok_response ?o)"
    by (simp add: demo_env_def)
  have h2: "status_code (ok_response ?o) = 200" and h3: "resp_json (ok_response ?o) = Inr (JObj [(''error'', JStr ''Model is loading'')])"
    by (simp_all add: ok_response_def)
  have h4: "map_of [(''error'', JStr ''Model is loading'')] ''generated_text'' = None"
    by simp
  from call_llama_missing_field [OF h1 h2 h3 h4] show ?thesis .
qed

text \<open>
  C8 as stated fails: the empty list is an unexpected shape too, and there
  \<open>result[0]\<close> raises \<open>IndexError\<close>.
\<close>

theorem call_llama_empty_list_raises:
  "fst (call_llama (demo_env (\<lambda>n. Inr (ok_response (JList []))) (Inr crawl_ok)) ''hi'' world0)
     = Inl (PyError IndexError ''list index out of range'')"
  by (simp add: call_llama_def Let_def demo_env_def ok_response_def)

section \<open>Properties of deep_research and run_research_process\<close>

lemma filter_post_deep_research:
  "filter is_post (trace (snd (deep_research env q d t u w))) = filter is_post (trace w)"
  by (simp add: trace_deep_research split: sum.splits)

lemma posts_made_deep_research [simp]:
  "posts_made (snd (deep_research env q d t u w)) = posts_made w"
  by (simp add: posts_made_def filter_post_deep_research)

lemma fst_deep_research:
  "fst (deep_research env q d t u w) =
     (case fst (deep_research_try env q d t u w) of
        Inl e \<Rightarrow> if isinstance_Exception e then Inr (failure_record e) else Inl e
      | Inr r \<Rightarrow> Inr r)"
  by (simp add: deep_research_eq split: sum.splits)

lemma and_then_Inr:
  "and_then m f = Inr y \<longleftrightarrow> (\<exists>x. m = Inr x \<and> f x = Inr y)"
  by (cases m) simp_all

lemma and_then_Inl:
  "and_then m f = Inl e \<longleftrightarrow> m = Inl e \<or> (\<exists>x. m = Inr x \<and> f x = Inl e)"
  by (cases m) simp_all

lemma subscript_raises_Exception:
  "subscript v key = Inl e \<Longrightarrow> isinstance_Exception e"
  by (cases v) (auto split: option.splits)

lemma py_len_raises_Exception:
  "py_len v = Inl e \<Longrightarrow> isinstance_Exception e"
  by (cases v) auto

lemma research_record_Inr:
  "research_record results = Inr r \<longleftrightarrow>
     (\<exists>data fa srcs n.
        subscript results ''data'' = Inr data \<and> subscript data ''finalAnalysis'' = Inr fa \<and>
        subscript data ''sources'' = Inr srcs \<and> py_len srcs = Inr n \<and>
        r = JObj [(''success'', JBool True), (''final_analysis'', fa),
                  (''sources_count'', JInt n), (''sources'', srcs)])"
  unfolding research_record_def and_then_Inr by auto

text \<open>The first item of the dictionary that raises ends its evaluation.\<close>

lemma research_record_Inl:
  "research_record results = Inl e \<longleftrightarrow>
     subscript results ''data'' = Inl e \<or>
     (\<exists>data. subscript results ''data'' = Inr data \<and>
        (subscript data ''finalAnalysis'' = Inl e \<or>
         (\<exists>fa. subscript data ''finalAnalysis'' = Inr fa \<and>
            (subscript data ''sources'' = Inl e \<or>
             (\<exists>srcs. subscript data ''sources'' = Inr srcs \<and> py_len srcs = Inl e)))))"
proof (cases "subscript results ''data''")
  case (Inl a)
  then show ?thesis by (simp add: research_record_def)
next
  case data: (Inr data)
  show ?thesis
  proof (cases "subscript data ''finalAnalysis''")
    case (Inl a)
    with data show ?thesis by (simp add: research_record_def)
  next
    case fa: (Inr fa)
    show ?thesis
    proof (cases "subscript data ''sources''")
      case (Inl a)
      with data fa show ?thesis by (simp add: research_record_def)
    next
      case srcs: (Inr srcs)
      with data fa show ?thesis
        by (cases "py_len srcs") (simp_all add: research_record_def)
    qed
  qed
qed

lemma research_record_raises_Exception:
  "research_record results = Inl e \<Longrightarrow> isinstance_Exception e"
  unfolding research_record_Inl
  by (auto dest: subscript_raises_Exception py_len_raises_Exception)

lemma fst_deep_research_try:
  "fst (deep_research_try env q d t u w) =
     (case new_firecrawl_app env (firecrawl_api_key (session w)) of
        Some e \<Rightarrow> Inl e
      | None \<Rightarrow>
          (case firecrawl_deep_research env (firecrawl_api_key (session w)) q (crawl_params d t u) of
             Inl e \<Rightarrow> Inl e
           | Inr results \<Rightarrow> research_record results))"
  by (simp add: deep_research_try_def Let_def split: option.splits sum.splits)

lemma deep_research_try_Inr:
  "fst (deep_research_try env q d t u w) = Inr r \<longleftrightarrow>
     new_firecrawl_app env (firecrawl_api_key (session w)) = None \<and>
     (\<exists>results. firecrawl_deep_research env (firecrawl_api_key (session w)) q (crawl_params d t u)
                   = Inr results \<and> research_record results = Inr r)"
  by (auto simp add: fst_deep_research_try split: option.splits sum.splits)

text \<open>
  C3. When the research step returns a failure record (its \<open>success\<close> is false),
  \<open>run_research_process\<close> returns the string "Research failed. Please try again." and
  posts nothing to the completion endpoint: \<open>call_llama\<close> is not called.
\<close>

theorem run_research_process_failure:
  assumes "fst (deep_research env topic 3 180 10 w) = Inr research_result"
      and "subscript research_result ''success'' = Inr (JBool False)"
  shows "fst (run_research_process env topic w) = Inr (JStr ''Research failed. Please try again.'')
       \<and> filter is_post (trace (snd (run_research_process env topic w))) = filter is_post (trace w)"
proof -
  let ?w0 = "emit (StSpinner ''Conducting deep web research...'') w"
  obtain r w1 where dr: "deep_research env topic 3 180 10 ?w0 = (r, w1)"
    by (cases "deep_research env topic 3 180 10 ?w0")
  have "r = fst (deep_research env topic 3 180 10 w)"
    using fst_deep_research_cong [of ?w0 w env topic 3 180 10] dr by simp
  with assms have r: "r = Inr research_result" by simp
  have run: "run_research_process env topic w = (Inr (JStr ''Research failed. Please try again.''), w1)"
    using dr r assms(2) by (simp add: run_research_process_def)
  have "filter is_post (trace w1) = filter is_post (trace ?w0)"
    using filter_post_deep_research [of env topic 3 180 10 ?w0] dr by simp
  with run show ?thesis by simp
qed

theorem run_research_process_failure_witness:
  "fst (run_research_process (demo_env (\<lambda>n. Inr response_500) (Inl (PyError Exception ''Unauthorized''))) ''ai'' world0)
     = Inr (JStr ''Research failed. Please try again.'')
   \<and> filter is_post (trace (snd (run_research_process
        (demo_env (\<lambda>n. Inr response_500) (Inl (PyError Exception ''Unauthorized''))) ''ai'' world0))) = []"
proof -
  let ?env = "demo_env (\<lambda>n. Inr response_500) (Inl (PyError Exception ''Unauthorized''))"
  have h1: "fst (deep_research ?env ''ai'' 3 180 10 world0)
              = Inr (JObj [(''error'', JStr ''Unauthorized''), (''success'', JBool False)])"
    by (simp add: fst_deep_research fst_deep_research_try demo_env_def failure_record_def)
  have h2: "subscript (JObj [(''error'', JStr ''Unauthorized''), (''success'', JBool False)]) ''success''
              = Inr (JBool False)"
    by simp
  from run_research_process_failure [OF h1 h2] show ?thesis
    by (simp add: world0_def)
qed

text \<open>
  C5, as the code has it. \<open>deep_research\<close> raises no instance of \<open>Exception\<close>. When the
  constructor of the client or the client's call raises an instance of \<open>Exception\<close>, or
  the answer lacks \<open>data\<close>, \<open>finalAnalysis\<close> or \<open>sources\<close> or its sources have no length,
  it returns the record with \<open>success\<close> false and the text of the exception under
  \<open>error\<close>. When the service answers with a final analysis and sources that have a
  length, it returns the record with \<open>success\<close> true, that analysis and those sources.
  An exception that is not an instance of \<open>Exception\<close> leaves \<open>deep_research\<close>.
\<close>

theorem deep_research_outcome:
  "(\<forall>e. new_firecrawl_app env (firecrawl_api_key (session w)) = Some e \<longrightarrow>
        fst (deep_research env query max_depth time_limit max_urls w) =
          (if isinstance_Exception e
           then Inr (JObj [(''error'', JStr (exc_str e)), (''success'', JBool False)])
           else Inl e))
   \<and> (\<forall>e. new_firecrawl_app env (firecrawl_api_key (session w)) = None \<and>
          firecrawl_deep_research env (firecrawl_api_key (session w)) query
            (crawl_params max_depth time_limit max_urls) = Inl e \<longrightarrow>
        fst (deep_research env query max_depth time_limit max_urls w) =
          (if isinstance_Exception e
           then Inr (JObj [(''error'', JStr (exc_str e)), (''success'', JBool False)])
           else Inl e))
   \<and> (\<forall>results data final_analysis sources n.
          new_firecrawl_app env (firecrawl_api_key (session w)) = None \<and>
          firecrawl_deep_research env (firecrawl_api_key (session w)) query
            (crawl_params max_depth time_limit max_urls) = Inr results \<and>
          subscript results ''data'' = Inr data \<and>
          subscript data ''finalAnalysis'' = Inr final_analysis \<and>
          subscript data ''sources'' = Inr sources \<and>
          py_len sources = Inr n \<longrightarrow>
        fst (deep_research env query max_depth time_limit max_urls w) =
          Inr (JObj [(''success'', JBool True), (''final_analysis'', final_analysis),
                     (''sources_count'', JInt n), (''sources'', sources)]))
   \<and> (\<forall>results e.
          new_firecrawl_app env (firecrawl_api_key (session w)) = None \<and>
          firecrawl_deep_research env (firecrawl_api_key (session w)) query
            (crawl_params max_depth time_limit max_urls) = Inr results \<and>
          (subscript results ''data'' = Inl e \<or>
           (\<exists>data. subscript results ''data'' = Inr data \<and>
              (subscript data ''finalAnalysis'' = Inl e \<or>
               (\<exists>final_analysis. subscript data ''finalAnalysis'' = Inr final_analysis \<and>
                  (subscript data ''sources'' = Inl e \<or>
                   (\<exists>sources. subscript data ''sources'' = Inr sources \<and>
                      py_len sources = Inl e)))))) \<longrightarrow>
        fst (deep_research env query max_depth time_limit max_urls w) =
          Inr (JObj [(''error'', JStr (exc_str e)), (''success'', JBool False)]))
   \<and> (\<forall>e. fst (deep_research env query max_depth time_limit max_urls w) = Inl e \<longrightarrow>
        \<not> isinstance_Exception e)"
proof -
  let ?key = "firecrawl_api_key (session w)"
  let ?params = "crawl_params max_depth time_limit max_urls"
  let ?R = "fst (deep_research env query max_depth time_limit max_urls w)"
  have ctor: "?R = (if isinstance_Exception e
           then Inr (JObj [(''error'', JStr (exc_str e)), (''success'', JBool False)])
           else Inl e)"
    if "new_firecrawl_app env ?key = Some e" for e
    using that by (simp add: fst_deep_research fst_deep_research_try failure_record_def)
  have client: "?R = (if isinstance_Exception e
           then Inr (JObj [(''error'', JStr (exc_str e)), (''success'', JBool False)])
           else Inl e)"
    if "new_firecrawl_app env ?key = None \<and> firecrawl_deep_research env ?key query ?params = Inl e" for e
    using that by (simp add: fst_deep_research fst_deep_research_try failure_record_def)
  have good: "?R = Inr (JObj [(''success'', JBool True), (''final_analysis'', final_analysis),
                     (''sources_count'', JInt n), (''sources'', sources)])"
    if "new_firecrawl_app env ?key = None \<and>
        firecrawl_deep_research env ?key query ?params = Inr results \<and>
        subscript results ''data'' = Inr data \<and>
        subscript data ''finalAnalysis'' = Inr final_analysis \<and>
        subscript data ''sources'' = Inr sources \<and>
        py_len sources = Inr n" for results data final_analysis sources n
  proof -
    from that have "research_record results =
        Inr (JObj [(''success'', JBool True), (''final_analysis'', final_analysis),
                     (''sources_count'', JInt n), (''sources'', sources)])"
      unfolding research_record_Inr by blast
    with that show ?thesis by (simp add: fst_deep_research fst_deep_research_try)
  qed
  have malformed: "?R = Inr (JObj [(''error'', JStr (exc_str e)), (''success'', JBool False)])"
    if "new_firecrawl_app env ?key = None \<and>
        firecrawl_deep_research env ?key query ?params = Inr results \<and>
        (subscript results ''data'' = Inl e \<or>
           (\<exists>data. subscript results ''data'' = Inr data \<and>
              (subscript data ''finalAnalysis'' = Inl e \<or>
               (\<exists>final_analysis. subscript data ''finalAnalysis'' = Inr final_analysis \<and>
                  (subscript data ''sources'' = Inl e \<or>
                   (\<exists>sources. subscript data ''sources'' = Inr sources \<and>
                      py_len sources = Inl e))))))" for results e
  proof -
    from that have rr: "research_record results = Inl e"
      unfolding research_record_Inl by blast
    then have "isinstance_Exception e" by (rule research_record_raises_Exception)
    with that rr show ?thesis
      by (simp add: fst_deep_research fst_deep_research_try failure_record_def)
  qed
  have raised: "\<not> isinstance_Exception e" if "?R = Inl e" for e
    using that by (auto simp add: fst_deep_research split: sum.splits if_splits)
  show ?thesis
  proof (intro conjI allI impI)
    fix e assume "new_firecrawl_app env ?key = Some e"
    then show "?R = (if isinstance_Exception e
           then Inr (JObj [(''error'', JStr (exc_str e)), (''success'', JBool False)])
           else Inl e)" by (rule ctor)
  next
    fix e assume "new_firecrawl_app env ?key = None \<and> firecrawl_deep_research env ?key query ?params = Inl e"
    then show "?R = (if isinstance_Exception e
           then Inr (JObj [(''error'', JStr (exc_str e)), (''success'', JBool False)])
           else Inl e)" by (rule client)
  next
    fix results data final_analysis sources n
    assume "new_firecrawl_app env ?key = None \<and>
        firecrawl_deep_research env ?key query ?params = Inr results \<and>
        subscript results ''data'' = Inr data \<and>
        subscript data ''finalAnalysis'' = Inr final_analysis \<and>
        subscript data ''sources'' = Inr sources \<and>
        py_len sources = Inr n"
    then show "?R = Inr (JObj [(''success'', JBool True), (''final_analysis'', final_analysis),
                     (''sources_count'', JInt n), (''sources'', sources)])" by (rule good)
  next
    fix results e
    assume "new_firecrawl_app env ?key = None \<and>
        firecrawl_deep_research env ?key query ?params = Inr results \<and>
        (subscript results ''data'' = Inl e \<or>
           (\<exists>data. subscript results ''data'' = Inr data \<and>
              (subscript data ''finalAnalysis'' = Inl e \<or>
               (\<exists>final_analysis. subscript data ''finalAnalysis'' = Inr final_analysis \<and>
                  (subscript data ''sources'' = Inl e \<or>
                   (\<exists>sources. subscript data ''sources'' = Inr sources \<and>
                      py_len sources = Inl e))))))"
    then show "?R = Inr (JObj [(''error'', JStr (exc_str e)), (''success'', JBool False)])"
      by (rule malformed)
  next
    fix e assume "?R = Inl e"
    then show "\<not> isinstance_Exception e" by (rule raised)
  qed
qed

theorem deep_research_outcome_witness:
  "fst (deep_research (demo_env (\<lambda>n. Inr response_500) (Inl (PyError Exception ''Unauthorized''))) ''ai'' 3 180 10 world0)
     = Inr (JObj [(''error'', JStr ''Unauthorized''), (''success'', JBool False)])
   \<and> fst (deep_research (demo_env (\<lambda>n. Inr response_500) (Inr crawl_ok)) ''ai'' 3 180 10 world0)
     = Inr (JObj [(''success'', JBool True), (''final_analysis'', JStr ''X''),
                  (''sources_count'', JInt 0), (''sources'', JList [])])
   \<and> fst (deep_research (demo_env (\<lambda>n. Inr response_500) (Inr (JObj [(''status'', JStr ''failed'')]))) ''ai'' 3 180 10 world0)
     = Inr (JObj [(''error'', JStr (quoted ''data'')), (''success'', JBool False)])"
proof -
  let ?bad = "demo_env (\<lambda>n. Inr response_500) (Inl (PyError Exception ''Unauthorized''))"
  let ?good = "demo_env (\<lambda>n. Inr response_500) (Inr crawl_ok)"
  let ?odd = "demo_env (\<lambda>n. Inr response_500) (Inr (JObj [(''status'', JStr ''failed'')]))"
  from deep_research_outcome [of ?bad world0 "''ai''" 3 180 10]
  have a: "fst (deep_research ?bad ''ai'' 3 180 10 world0)
             = Inr (JObj [(''error'', JStr ''Unauthorized''), (''success'', JBool False)])"
    by (simp add: demo_env_def)
  have g: "new_firecrawl_app ?good (firecrawl_api_key (session world0)) = None \<and>
          firecrawl_deep_research ?good (firecrawl_api_key (session world0)) ''ai''
            (crawl_params 3 180 10) = Inr crawl_ok \<and>
          subscript crawl_ok ''data'' = Inr (JObj [(''finalAnalysis'', JStr ''X''), (''sources'', JList [])]) \<and>
          subscript (JObj [(''finalAnalysis'', JStr ''X''), (''sources'', JList [])]) ''finalAnalysis'' = Inr (JStr ''X'') \<and>
          subscript (JObj [(''finalAnalysis'', JStr ''X''), (''sources'', JList [])]) ''sources'' = Inr (JList []) \<and>
          py_len (JList []) = Inr 0"
    by (simp add: demo_env_def crawl_ok_def)
  from deep_research_outcome [of ?good world0 "''ai''" 3 180 10] g
  have b: "fst (deep_research ?good ''ai'' 3 180 10 world0)
             = Inr (JObj [(''success'', JBool True), (''final_analysis'', JStr ''X''),
                          (''sources_count'', JInt 0), (''sources'', JList [])])"
    by blast
  have o: "new_firecrawl_app ?odd (firecrawl_api_key (session world0)) = None \<and>
          firecrawl_deep_research ?odd (firecrawl_api_key (session world0)) ''ai''
            (crawl_params 3 180 10) = Inr (JObj [(''status'', JStr ''failed'')]) \<and>
          subscript (JObj [(''status'', JStr ''failed'')]) ''data'' = Inl (PyError KeyError (quoted ''data''))"
    by (simp add: demo_env_def)
  from deep_research_outcome [of ?odd world0 "''ai''" 3 180 10] o
  have c: "fst (deep_research ?odd ''ai'' 3 180 10 world0)
             = Inr (JObj [(''error'', JStr (exc_str (PyError KeyError (quoted ''data'')))), (''success'', JBool False)])"
    by blast
  from a b c show ?thesis by simp
qed

text \<open>
  C5 as stated fails: a \<open>KeyboardInterrupt\<close> raised while the client runs is not an
  instance of \<open>Exception\<close>; line 112 does not catch it and \<open>deep_research\<close> raises it.
\<close>

theorem deep_research_raises_keyboard_interrupt:
  "fst (deep_research (demo_env (\<lambda>n. Inr response_500) (Inl (PyError KeyboardInterrupt '''')))
          ''ai'' 3 180 10 world0)
     = Inl (PyError KeyboardInterrupt '''')"
  by (simp add: fst_deep_research fst_deep_research_try demo_env_def)

lemma run_research_process_raise:
  assumes dr: "deep_research env topic 3 180 10 (emit (StSpinner ''Conducting deep web research...'') w) = (Inl e, w1)"
  shows "run_research_process env topic w = (Inl e, w1)"
  unfolding run_research_process_def dr by simp

lemma run_research_process_unfold:
  assumes dr: "deep_research env topic 3 180 10 (emit (StSpinner ''Conducting deep web research...'') w) = (Inr r, w1)"
  shows "run_research_process env topic w =
     (case subscript r ''success'' of
             Inl e \<Rightarrow> (Inl e, w1)
           | Inr ok \<Rightarrow>
               if \<not> truthy ok then (Inr (JStr ''Research failed. Please try again.''), w1)
               else
                 (case subscript r ''final_analysis'' of
                    Inl e \<Rightarrow> (Inl e, w1)
                  | Inr final_analysis \<Rightarrow>
                      (case subscript r ''sources'' of
                         Inl e \<Rightarrow> (Inl e, w1)
                       | Inr sources \<Rightarrow>
                           (case fst (call_llama env (initial_prompt env topic final_analysis sources) w1) of
                              Inl e \<Rightarrow> (Inl e, emit (RequestsPost (llama_request (session w1) (initial_prompt env topic final_analysis sources))) w1)
                            | Inr initial_report \<Rightarrow>
                                call_llama env (enhancement_prompt env initial_report)
                                  (emit (StSpinner ''Enhancing the report with additional information...'')
                                    (emit (StMarkdown initial_report)
                                      (emit (StExpander ''View Initial Research Report'')
                                        (emit (RequestsPost (llama_request (session w1) (initial_prompt env topic final_analysis sources))) w1))))))))"
  unfolding run_research_process_def dr
  by (simp add: case_prod_beta Let_def split: sum.splits)





lemma sublist_initial_prompt_analysis:
  "sublist (format_value env final_analysis) (initial_prompt env topic final_analysis sources)"
proof -
  have "initial_prompt env topic final_analysis sources =
          (nl @ ''You are a research assistant. Based on the analysis and sources below, generate a clear, structured research report.'' @ nl
            @ nl @ ''Topic: '' @ topic @ nl @ nl @ ''Analysis:'' @ nl)
          @ format_value env final_analysis
          @ (nl @ nl @ ''Sources:'' @ nl @ format_value env sources @ nl @ nl
             @ ''Write a concise research report with citations and key insights.'' @ nl)"
    by (simp only: initial_prompt_def append_assoc)
  then show ?thesis by (simp only: sublist_appendI)
qed

lemma sublist_initial_prompt_sources:
  "sublist (format_value env sources) (initial_prompt env topic final_analysis sources)"
proof -
  have "initial_prompt env topic final_analysis sources =
          (nl @ ''You are a research assistant. Based on the analysis and sources below, generate a clear, structured research report.'' @ nl
            @ nl @ ''Topic: '' @ topic @ nl @ nl @ ''Analysis:'' @ nl
            @ format_value env final_analysis @ nl @ nl @ ''Sources:'' @ nl)
          @ format_value env sources
          @ (nl @ nl @ ''Write a concise research report with citations and key insights.'' @ nl)"
    by (simp only: initial_prompt_def append_assoc)
  then show ?thesis by (simp only: sublist_appendI)
qed

lemma sublist_enhancement_prompt:
  "sublist (format_value env initial_report) (enhancement_prompt env initial_report)"
proof -
  have "enhancement_prompt env initial_report =
          (nl @ ''Enhance the following research report by:'' @ nl
           @ ''- Adding more detail to complex parts'' @ nl
           @ ''- Including examples, case studies, and applications'' @ nl
           @ ''- Describing visual elements like diagrams'' @ nl
           @ ''- Making the report comprehensive but factual'' @ nl
           @ nl @ ''Original Report:'' @ nl)
          @ format_value env initial_report @ nl"
    by (simp only: enhancement_prompt_def append_assoc)
  then show ?thesis by (simp only: sublist_appendI)
qed

lemma research_success_constructed:
  assumes "fst (deep_research env q d t u w) =
             Inr (JObj [(''success'', JBool True), (''final_analysis'', fa),
                        (''sources_count'', JInt n), (''sources'', srcs)])"
  shows "new_firecrawl_app env (firecrawl_api_key (session w)) = None
       \<and> (\<exists>r. fst (deep_research_try env q d t u w) = Inr r)"
proof -
  from assms obtain r where r: "fst (deep_research_try env q d t u w) = Inr r"
    by (auto simp add: fst_deep_research failure_record_def split: sum.splits if_splits)
  then show ?thesis
    using deep_research_try_Inr [of env q d t u w r] by blast
qed

text \<open>
  C4, as the code has it. When the research step succeeds, the first prompt embeds the
  analysis and the sources and the enhancement prompt embeds the draft. If the first
  \<open>call_llama\<close> returns a draft, the calls to the services are, in order, the crawl on
  the topic, the post of the first prompt and the post of the enhancement prompt, and the
  outcome of \<open>run_research_process\<close> is the outcome of the second \<open>call_llama\<close>,
  unchanged. If the first \<open>call_llama\<close> raises, the exception propagates and there is
  no second post.
\<close>

theorem run_research_process_sequence:
  assumes "fst (deep_research env topic 3 180 10 w) =
             Inr (JObj [(''success'', JBool True), (''final_analysis'', final_analysis),
                        (''sources_count'', JInt n), (''sources'', sources)])"
  shows "(\<forall>draft. fst (call_llama env (initial_prompt env topic final_analysis sources) w) = Inr draft \<longrightarrow>
            fst (run_research_process env topic w) =
              fst (call_llama env (enhancement_prompt env draft)
                     (snd (call_llama env (initial_prompt env topic final_analysis sources) w)))
          \<and> filter is_network (trace (snd (run_research_process env topic w))) =
              filter is_network (trace w) @
              [FirecrawlDeepResearch topic (crawl_params 3 180 10),
               RequestsPost (llama_request (session w) (initial_prompt env topic final_analysis sources)),
               RequestsPost (llama_request (session w) (enhancement_prompt env draft))])
       \<and> (\<forall>e. fst (call_llama env (initial_prompt env topic final_analysis sources) w) = Inl e \<longrightarrow>
            fst (run_research_process env topic w) = Inl e
          \<and> filter is_network (trace (snd (run_research_process env topic w))) =
              filter is_network (trace w) @
              [FirecrawlDeepResearch topic (crawl_params 3 180 10),
               RequestsPost (llama_request (session w) (initial_prompt env topic final_analysis sources))])
       \<and> sublist (format_value env final_analysis) (initial_prompt env topic final_analysis sources)
       \<and> sublist (format_value env sources) (initial_prompt env topic final_analysis sources)
       \<and> (\<forall>draft. sublist (format_value env draft) (enhancement_prompt env draft))"
proof -
  let ?w0 = "emit (StSpinner ''Conducting deep web research...'') w"
  let ?p1 = "initial_prompt env topic final_analysis sources"
  let ?rec = "JObj [(''success'', JBool True), (''final_analysis'', final_analysis),
                   (''sources_count'', JInt n), (''sources'', sources)]"
  obtain x w1 where dr0: "deep_research env topic 3 180 10 ?w0 = (x, w1)"
    by (cases "deep_research env topic 3 180 10 ?w0")
  have "x = Inr ?rec"
    using fst_deep_research_cong [of ?w0 w env topic 3 180 10] dr0 assms by simp
  with dr0 have dr: "deep_research env topic 3 180 10 ?w0 = (Inr ?rec, w1)" by simp
  have s1: "session w1 = session w"
    using session_deep_research [of env topic 3 180 10 ?w0] dr by simp
  have p1: "posts_made w1 = posts_made w"
    using posts_made_deep_research [of env topic 3 180 10 ?w0] dr by simp
  have first: "fst (call_llama env ?p1 w1) = fst (call_llama env ?p1 w)"
    by (rule fst_call_llama_cong [OF s1 p1])
  have r0: "fst (deep_research env topic 3 180 10 ?w0) = Inr ?rec"
    using dr by simp
  from research_success_constructed [OF r0]
  obtain r' where app: "new_firecrawl_app env (firecrawl_api_key (session w)) = None"
    and tr: "fst (deep_research_try env topic 3 180 10 ?w0) = Inr r'"
    by auto
  have net1: "filter is_network (trace w1) =
                filter is_network (trace w) @ [FirecrawlDeepResearch topic (crawl_params 3 180 10)]"
    using trace_deep_research [of env topic 3 180 10 ?w0] dr app tr by simp
  have run: "run_research_process env topic w =
      (case fst (call_llama env ?p1 w) of
         Inl e \<Rightarrow> (Inl e, emit (RequestsPost (llama_request (session w) ?p1)) w1)
       | Inr initial_report \<Rightarrow>
           call_llama env (enhancement_prompt env initial_report)
             (emit (StSpinner ''Enhancing the report with additional information...'')
               (emit (StMarkdown initial_report)
                 (emit (StExpander ''View Initial Research Report'')
                   (emit (RequestsPost (llama_request (session w) ?p1)) w1)))))"
    unfolding run_research_process_unfold [OF dr] by (simp add: first s1 cong: sum.case_cong)
  have ok: "fst (run_research_process env topic w) =
              fst (call_llama env (enhancement_prompt env draft) (snd (call_llama env ?p1 w)))
          \<and> filter is_network (trace (snd (run_research_process env topic w))) =
              filter is_network (trace w) @
              [FirecrawlDeepResearch topic (crawl_params 3 180 10),
               RequestsPost (llama_request (session w) ?p1),
               RequestsPost (llama_request (session w) (enhancement_prompt env draft))]"
    if d: "fst (call_llama env ?p1 w) = Inr draft" for draft
  proof -
    let ?w4 = "emit (StSpinner ''Enhancing the report with additional information...'')
               (emit (StMarkdown draft)
                 (emit (StExpander ''View Initial Research Report'')
                   (emit (RequestsPost (llama_request (session w) ?p1)) w1)))"
    have run': "run_research_process env topic w = call_llama env (enhancement_prompt env draft) ?w4"
      unfolding run d by simp
    have "fst (call_llama env (enhancement_prompt env draft) ?w4) =
          fst (call_llama env (enhancement_prompt env draft) (snd (call_llama env ?p1 w)))"
      by (rule fst_call_llama_cong) (simp_all add: s1 p1)
    moreover have "filter is_network (trace (snd (call_llama env (enhancement_prompt env draft) ?w4))) =
              filter is_network (trace w) @
              [FirecrawlDeepResearch topic (crawl_params 3 180 10),
               RequestsPost (llama_request (session w) ?p1),
               RequestsPost (llama_request (session w) (enhancement_prompt env draft))]"
      by (simp add: net1 s1)
    ultimately show ?thesis unfolding run' by simp
  qed
  have bad: "fst (run_research_process env topic w) = Inl e
          \<and> filter is_network (trace (snd (run_research_process env topic w))) =
              filter is_network (trace w) @
              [FirecrawlDeepResearch topic (crawl_params 3 180 10),
               RequestsPost (llama_request (session w) ?p1)]"
    if d: "fst (call_llama env ?p1 w) = Inl e" for e
    unfolding run d by (simp add: net1)
  from ok bad sublist_initial_prompt_analysis [of env final_analysis topic sources]
    sublist_initial_prompt_sources [of env sources topic final_analysis]
    sublist_enhancement_prompt [of env]
  show ?thesis by blast
qed

lemma strip_final: "strip '' final '' = ''final''"
  by (simp add: strip_def is_space_def py_isspace_def)

theorem run_research_process_sequence_witness:
  "fst (run_research_process (demo_env two_posts (Inr crawl_ok)) ''quantum computing'' world0)
     = Inr (JStr ''final'')
   \<and> length (filter is_network (trace (snd (run_research_process
         (demo_env two_posts (Inr crawl_ok)) ''quantum computing'' world0)))) = 3"
proof -
  let ?env = "demo_env two_posts (Inr crawl_ok)"
  let ?p1 = "initial_prompt ?env ''quantum computing'' (JStr ''X'') (JList [])"
  have h: "fst (deep_research ?env ''quantum computing'' 3 180 10 world0) =
             Inr (JObj [(''success'', JBool True), (''final_analysis'', JStr ''X''),
                        (''sources_count'', JInt 0), (''sources'', JList [])])"
    by (simp add: fst_deep_research fst_deep_research_try demo_env_def
          research_record_def crawl_ok_def)
  have d: "fst (call_llama ?env ?p1 world0) = Inr (JStr ''draft'')"
    by (simp add: call_llama_def Let_def demo_env_def two_posts_def ok_response_def
          posts_made_def world0_def)
  have e: "fst (call_llama ?env (enhancement_prompt ?env (JStr ''draft'')) (snd (call_llama ?env ?p1 world0)))
             = Inr (JStr ''final'')"
    by (simp add: call_llama_def Let_def demo_env_def two_posts_def ok_response_def
          posts_made_def world0_def strip_final)
  from run_research_process_sequence [OF h] d e show ?thesis
    by (simp add: world0_def)
qed

text \<open>
  C4 as stated fails: the research step succeeds, the completion endpoint answers 500,
  and \<open>run_research_process\<close> raises after one post; there is no second call and it
  returns nothing.
\<close>

theorem run_research_process_first_call_raises:
  "fst (deep_research (demo_env (\<lambda>n. Inr response_500) (Inr crawl_ok)) ''quantum computing'' 3 180 10 world0)
     = Inr (JObj [(''success'', JBool True), (''final_analysis'', JStr ''X''),
                  (''sources_count'', JInt 0), (''sources'', JList [])])
   \<and> fst (run_research_process (demo_env (\<lambda>n. Inr response_500) (Inr crawl_ok)) ''quantum computing'' world0)
     = Inl (PyError Exception ''LLaMA API error: 500 - Internal Server Error'')
   \<and> length (filter is_post (trace (snd (run_research_process
         (demo_env (\<lambda>n. Inr response_500) (Inr crawl_ok)) ''quantum computing'' world0)))) = 1"
proof -
  let ?env = "demo_env (\<lambda>n. Inr response_500) (Inr crawl_ok)"
  let ?w0 = "emit (StSpinner ''Conducting deep web research...'') world0"
  let ?rec = "JObj [(''success'', JBool True), (''final_analysis'', JStr ''X''),
                   (''sources_count'', JInt 0), (''sources'', JList [])]"
  have h: "fst (deep_research ?env ''quantum computing'' 3 180 10 world0) = Inr ?rec"
    by (simp add: fst_deep_research fst_deep_research_try demo_env_def
          research_record_def crawl_ok_def)
  obtain w1 where dr: "deep_research ?env ''quantum computing'' 3 180 10 ?w0 = (Inr ?rec, w1)"
    using fst_deep_research_cong [of ?w0 world0 ?env "''quantum computing''" 3 180 10] h
    by (cases "deep_research ?env ''quantum computing'' 3 180 10 ?w0") simp
  have w1: "filter is_post (trace w1) = []"
    using filter_post_deep_research [of ?env "''quantum computing''" 3 180 10 ?w0] dr
    by (simp add: world0_def)
  have c: "fst (call_llama ?env p w1) = Inl (PyError Exception ''LLaMA API error: 500 - Internal Server Error'')" for p
    by (simp add: call_llama_def Let_def demo_env_def response_500_def str_int_500)
  show ?thesis
    unfolding run_research_process_unfold [OF dr]
    using h by (simp add: c w1)
qed

section \<open>Properties of the page\<close>



lemma filter_warning_run_research_process:
  "filter is_warning (trace (snd (run_research_process env topic w))) = filter is_warning (trace w)"
proof -
  let ?w0 = "emit (StSpinner ''Conducting deep web research...'') w"
  obtain x w1 where dr: "deep_research env topic 3 180 10 ?w0 = (x, w1)"
    by (cases "deep_research env topic 3 180 10 ?w0")
  have w1: "filter is_warning (trace w1) = filter is_warning (trace w)"
    using trace_deep_research [of env topic 3 180 10 ?w0] dr
    by (simp split: sum.splits)
  show ?thesis
  proof (cases x)
    case (Inl e)
    with dr w1 show ?thesis by (simp add: run_research_process_raise)
  next
    case (Inr r)
    with dr have dr': "deep_research env topic 3 180 10 ?w0 = (Inr r, w1)" by simp
    from w1 show ?thesis
      unfolding run_research_process_unfold [OF dr']
      by (simp split: sum.splits)
  qed
qed

lemma session_run_research_process:
  "session (snd (run_research_process env topic w)) = session w"
proof -
  let ?w0 = "emit (StSpinner ''Conducting deep web research...'') w"
  obtain x w1 where dr: "deep_research env topic 3 180 10 ?w0 = (x, w1)"
    by (cases "deep_research env topic 3 180 10 ?w0")
  have w1: "session w1 = session w"
    using session_deep_research [of env topic 3 180 10 ?w0] dr by simp
  show ?thesis
  proof (cases x)
    case (Inl e)
    with dr w1 show ?thesis by (simp add: run_research_process_raise)
  next
    case (Inr r)
    with dr have dr': "deep_research env topic 3 180 10 ?w0 = (Inr r, w1)" by simp
    from w1 show ?thesis
      unfolding run_research_process_unfold [OF dr']
      by (simp split: sum.splits)
  qed
qed

lemma session_start_research:
  "session (snd (start_research env research_topic w)) = session w"
proof -
  obtain x w1 where run: "run_research_process env research_topic w = (x, w1)"
    by (cases "run_research_process env research_topic w")
  have "session w1 = session w"
    using session_run_research_process [of env research_topic w] run by simp
  then show ?thesis
    by (cases x) (simp_all add: start_research_def run)
qed

lemma session_script_run:
  "session (snd (script_run env inp st tr)) =
     sidebar (in_llama_endpoint inp) (in_llama_api_key inp) (in_firecrawl_api_key inp)
       (init_session_state st)"
  by (simp add: script_run_def Let_def session_start_research)

text \<open>
  C9. In the action of the button: when the topic, the crawl key or the endpoint is
  empty, the action shows one warning, the one for the first of them that is empty, and
  calls no service; when none is empty it shows no warning. The button fires only in a
  state where none is empty.
\<close>

theorem start_research_warnings:
  "(research_topic = [] \<or> firecrawl_api_key (session w) = [] \<or> llama_endpoint (session w) = [] \<longrightarrow>
      trace (snd (start_research env research_topic w)) =
        trace w @ [StWarning
          (if research_topic = [] then ''Please enter a research topic.''
           else if firecrawl_api_key (session w) = [] then ''Please enter the Firecrawl API key.''
           else ''Please enter the LLaMA API endpoint.'')]
    \<and> filter is_network (trace (snd (start_research env research_topic w))) = filter is_network (trace w))
   \<and> (research_topic \<noteq> [] \<and> firecrawl_api_key (session w) \<noteq> [] \<and> llama_endpoint (session w) \<noteq> [] \<longrightarrow>
      filter is_warning (trace (snd (start_research env research_topic w))) = filter is_warning (trace w))
   \<and> (st_button clicked (button_disabled research_topic (session w)) \<longrightarrow>
      research_topic \<noteq> [] \<and> firecrawl_api_key (session w) \<noteq> [] \<and> llama_endpoint (session w) \<noteq> [])"
proof -
  have missing: "trace (snd (start_research env research_topic w)) =
        trace w @ [StWarning
          (if research_topic = [] then ''Please enter a research topic.''
           else if firecrawl_api_key (session w) = [] then ''Please enter the Firecrawl API key.''
           else ''Please enter the LLaMA API endpoint.'')]"
    if "research_topic = [] \<or> firecrawl_api_key (session w) = [] \<or> llama_endpoint (session w) = []"
    using that by (auto simp add: start_research_def)
  have complete: "filter is_warning (trace (snd (start_research env research_topic w))) = filter is_warning (trace w)"
    if "research_topic \<noteq> []" "firecrawl_api_key (session w) \<noteq> []" "llama_endpoint (session w) \<noteq> []"
  proof -
    obtain x w1 where run: "run_research_process env research_topic w = (x, w1)"
      by (cases "run_research_process env research_topic w")
    have "filter is_warning (trace w1) = filter is_warning (trace w)"
      using filter_warning_run_research_process [of env research_topic w] run by simp
    with that show ?thesis
      by (cases x) (simp_all add: start_research_def run)
  qed
  have fires: "research_topic \<noteq> [] \<and> firecrawl_api_key (session w) \<noteq> [] \<and> llama_endpoint (session w) \<noteq> []"
    if "st_button clicked (button_disabled research_topic (session w))"
    using that by (simp add: st_button_def button_disabled_def)
  from missing complete fires show ?thesis by simp
qed

theorem start_research_warnings_witness:
  "trace (snd (start_research (demo_env two_posts (Inr crawl_ok)) '''' world0))
     = [StWarning ''Please enter a research topic.'']
   \<and> filter is_warning (trace (snd (start_research (demo_env two_posts (Inr crawl_ok)) ''ai'' world0))) = []
   \<and> st_button True (button_disabled ''ai'' (session world0))"
proof -
  let ?env = "demo_env two_posts (Inr crawl_ok)"
  have a: "trace (snd (start_research ?env '''' world0)) = [StWarning ''Please enter a research topic.'']"
    using start_research_warnings [of "''''" world0 ?env True] by (simp add: world0_def)
  have b: "filter is_warning (trace (snd (start_research ?env ''ai'' world0))) = []"
    using start_research_warnings [of "''ai''" world0 ?env True] by (simp add: world0_def)
  have c: "st_button True (button_disabled ''ai'' (session world0))"
    by (simp add: st_button_def button_disabled_def world0_def)
  from a b c show ?thesis by simp
qed

lemma sidebar_fields:
  "llama_endpoint (sidebar e k f s) = (if e \<noteq> [] then e else llama_endpoint s)"
  "llama_api_key (sidebar e k f s) = (if k \<noteq> [] then k else llama_api_key s)"
  "firecrawl_api_key (sidebar e k f s) = (if f \<noteq> [] then f else firecrawl_api_key s)"
  by (simp_all add: sidebar_def Let_def)

lemma run_session_endpoint:
  "\<exists>v. stored_llama_endpoint st = Some v \<and> v \<noteq> [] \<Longrightarrow>
   \<exists>v. stored_llama_endpoint (fst (run_session env inps st tr)) = Some v \<and> v \<noteq> []"
proof (induction inps arbitrary: st tr)
  case Nil
  then show ?case by simp
next
  case (Cons inp inps)
  let ?w = "snd (script_run env inp st tr)"
  from Cons.prems have "\<exists>v. stored_llama_endpoint (persist (session ?w)) = Some v \<and> v \<noteq> []"
    by (auto simp add: persist_def session_script_run sidebar_fields init_session_state_def)
  from Cons.IH [OF this] show ?case by (simp add: Let_def)
qed

lemma run_session_api_key:
  "\<exists>v. stored_llama_api_key st = Some v \<and> v \<noteq> [] \<Longrightarrow>
   \<exists>v. stored_llama_api_key (fst (run_session env inps st tr)) = Some v \<and> v \<noteq> []"
proof (induction inps arbitrary: st tr)
  case Nil
  then show ?case by simp
next
  case (Cons inp inps)
  let ?w = "snd (script_run env inp st tr)"
  from Cons.prems have "\<exists>v. stored_llama_api_key (persist (session ?w)) = Some v \<and> v \<noteq> []"
    by (auto simp add: persist_def session_script_run sidebar_fields init_session_state_def)
  from Cons.IH [OF this] show ?case by (simp add: Let_def)
qed

lemma run_session_firecrawl_key:
  "\<exists>v. stored_firecrawl_api_key st = Some v \<and> v \<noteq> [] \<Longrightarrow>
   \<exists>v. stored_firecrawl_api_key (fst (run_session env inps st tr)) = Some v \<and> v \<noteq> []"
proof (induction inps arbitrary: st tr)
  case Nil
  then show ?case by simp
next
  case (Cons inp inps)
  let ?w = "snd (script_run env inp st tr)"
  from Cons.prems have "\<exists>v. stored_firecrawl_api_key (persist (session ?w)) = Some v \<and> v \<noteq> []"
    by (auto simp add: persist_def session_script_run sidebar_fields init_session_state_def)
  from Cons.IH [OF this] show ?case by (simp add: Let_def)
qed

text \<open>
  C10. The sidebar stores an entered endpoint or key only when it is not empty, and
  keeps the stored value when the field is empty. So a stored credential that is not
  empty is not empty after any further runs of the script.
\<close>

theorem credentials_monotone:
  "llama_endpoint (sidebar e k f s) = (if e \<noteq> [] then e else llama_endpoint s)
   \<and> llama_api_key (sidebar e k f s) = (if k \<noteq> [] then k else llama_api_key s)
   \<and> firecrawl_api_key (sidebar e k f s) = (if f \<noteq> [] then f else firecrawl_api_key s)
   \<and> ((\<exists>v. stored_llama_endpoint st = Some v \<and> v \<noteq> []) \<longrightarrow>
        (\<exists>v. stored_llama_endpoint (fst (run_session env inps st tr)) = Some v \<and> v \<noteq> []))
   \<and> ((\<exists>v. stored_llama_api_key st = Some v \<and> v \<noteq> []) \<longrightarrow>
        (\<exists>v. stored_llama_api_key (fst (run_session env inps st tr)) = Some v \<and> v \<noteq> []))
   \<and> ((\<exists>v. stored_firecrawl_api_key st = Some v \<and> v \<noteq> []) \<longrightarrow>
        (\<exists>v. stored_firecrawl_api_key (fst (run_session env inps st tr)) = Some v \<and> v \<noteq> []))"
  using run_session_endpoint [of st env inps tr] run_session_api_key [of st env inps tr]
    run_session_firecrawl_key [of st env inps tr]
  by (simp add: sidebar_fields)

theorem credentials_monotone_witness:
  "(\<exists>v. stored_llama_endpoint (fst (run_session (demo_env two_posts (Inr crawl_ok))
            [cleared_input, cleared_input] stored0 [])) = Some v \<and> v \<noteq> [])
   \<and> (\<exists>v. stored_llama_api_key (fst (run_session (demo_env two_posts (Inr crawl_ok))
            [cleared_input, cleared_input] stored0 [])) = Some v \<and> v \<noteq> [])
   \<and> (\<exists>v. stored_firecrawl_api_key (fst (run_session (demo_env two_posts (Inr crawl_ok))
            [cleared_input, cleared_input] stored0 [])) = Some v \<and> v \<noteq> [])
   \<and> llama_endpoint (sidebar '''' '''' '''' (session world0)) = ''http://llama.example/v1''"
  using credentials_monotone [of "''''" "''''" "''''" "session world0" stored0
          "demo_env two_posts (Inr crawl_ok)" "[cleared_input, cleared_input]" "[]"]
  by (simp add: stored0_def world0_def)

end
